theory Spec2Isabelle
  imports Complex_Main "HOL-Library.Sublist"
begin

section \<open>JavaScript values\<close>

text \<open>
  A parsed JSON value, as \<open>response.json()\<close> resolves it. A number is modelled by its
  mathematical value: the handlers only test numbers for truthiness and never compute with
  them, so rounding to a double is left out. An object is the list of its own properties.
  Strings are sequences of bytes (UTF-8), which keeps emptiness and ASCII prefixes as the
  source's strings have them; a string that is not well-formed Unicode (a lone surrogate)
  has no such encoding and is not modelled.
\<close>

datatype json =
    JNull
  | JBool bool
  | JNum rat
  | JStr string
  | JArr "json list"
  | JObj "(string \<times> json) list"

text \<open>A JavaScript value read from a property: \<open>None\<close> is \<open>undefined\<close>.\<close>

type_synonym jsval = "json option"

text \<open>
  What a \<open>throw\<close> or a rejected promise carries: an instance of \<open>Error\<close> with its
  name and message, or any other value.
\<close>

datatype thrown =
    ErrorInstance string string
  | ThrownValue jsval

text \<open>Truthiness: \<open>undefined\<close>, \<open>null\<close>, \<open>false\<close>, \<open>0\<close> and \<open>""\<close> are falsy.\<close>

fun truthy :: "jsval \<Rightarrow> bool" where
  "truthy None = False"
| "truthy (Some JNull) = False"
| "truthy (Some (JBool b)) = b"
| "truthy (Some (JNum n)) = (n \<noteq> 0)"
| "truthy (Some (JStr s)) = (s \<noteq> [])"
| "truthy (Some (JArr xs)) = True"
| "truthy (Some (JObj kvs)) = True"

text \<open>The operator \<open>a || b\<close>.\<close>

definition or_else :: "jsval \<Rightarrow> jsval \<Rightarrow> jsval" where
  "or_else a b = (if truthy a then a else b)"

text \<open>
  Reading the property \<open>p\<close> of a parsed JSON value. Reading a property of \<open>null\<close> throws a
  TypeError (the message is V8's). For the property names the handlers read
  (\<open>text\<close>, \<open>confidence\<close>, \<open>layout\<close>, \<open>processing_time\<close>, \<open>error\<close>) no prototype of a
  boolean, number, string or array supplies a value, so the read is \<open>undefined\<close> there.
\<close>

definition TypeError_read :: "string \<Rightarrow> string \<Rightarrow> thrown" where
  "TypeError_read what p =
     ErrorInstance ''TypeError''
       (''Cannot read properties of '' @ what @ '' (reading '' @ [CHR 0x27] @ p @ [CHR 0x27] @ '')'')"

fun get_prop :: "json \<Rightarrow> string \<Rightarrow> thrown + jsval" where
  "get_prop JNull p = Inl (TypeError_read ''null'' p)"
| "get_prop (JObj kvs) p = Inr (map_of kvs p)"
| "get_prop (JBool b) p = Inr None"
| "get_prop (JNum n) p = Inr None"
| "get_prop (JStr s) p = Inr None"
| "get_prop (JArr xs) p = Inr None"

text \<open>Decimal digits of a natural number, as a template literal prints a status code.\<close>

fun nat_to_string :: "nat \<Rightarrow> string" where
  "nat_to_string n =
     (if n < 10 then [''0123456789'' ! n]
      else nat_to_string (n div 10) @ [''0123456789'' ! (n mod 10)])"

declare nat_to_string.simps [simp del]

text \<open>\<open>Array.prototype.join\<close> with a comma.\<close>

fun join_comma :: "string list \<Rightarrow> string" where
  "join_comma [] = []"
| "join_comma [s] = s"
| "join_comma (s # t # ss) = s @ '','' @ join_comma (t # ss)"

text \<open>
  The string conversion \<open>String(v)\<close> of a parsed JSON value, \<open>None\<close> when it throws the
  TypeError \<open>TypeError_convert\<close>. How the engine prints a number is a parameter \<open>ns\<close>. An
  array joins the conversions of its elements, \<open>null\<close> counting as the empty string. An
  object is converted by the \<open>toString\<close> it inherits, unless it has an own property of that
  name: a parsed value is never callable, and then no conversion is left.
\<close>

definition TypeError_convert :: thrown where
  "TypeError_convert = ErrorInstance ''TypeError'' ''Cannot convert object to primitive value''"

fun ToString :: "(rat \<Rightarrow> string) \<Rightarrow> json \<Rightarrow> string option" where
  "ToString ns JNull = Some ''null''"
| "ToString ns (JBool b) = Some (if b then ''true'' else ''false'')"
| "ToString ns (JNum n) = Some (ns n)"
| "ToString ns (JStr s) = Some s"
| "ToString ns (JArr xs) =
     map_option join_comma (those (map (\<lambda>x. if x = JNull then Some [] else ToString ns x) xs))"
| "ToString ns (JObj kvs) =
     (if map_of kvs ''toString'' = None then Some ''[object Object]'' else None)"

fun ToString_val :: "(rat \<Rightarrow> string) \<Rightarrow> jsval \<Rightarrow> string option" where
  "ToString_val ns None = Some ''undefined''"
| "ToString_val ns (Some v) = ToString ns v"

text \<open>\<open>String(error)\<close>: \<open>Error.prototype.toString\<close> for an instance of \<open>Error\<close>.\<close>

fun String_thrown :: "(rat \<Rightarrow> string) \<Rightarrow> thrown \<Rightarrow> string option" where
  "String_thrown ns (ErrorInstance name msg) =
     Some (if name = [] then msg else if msg = [] then name else name @ '': '' @ msg)"
| "String_thrown ns (ThrownValue v) = ToString_val ns v"

section \<open>Files, requests, responses and effects\<close>

record File =
  file_name :: string
  file_size :: nat
  file_type :: string

text \<open>A \<open>FormDataEntryValue\<close> is a \<open>File\<close> or a string.\<close>

datatype entry = FileEntry File | StringEntry string

type_synonym form_data = "(string \<times> entry) list"

text \<open>\<open>formData.get(name)\<close>: the first value of that name, or \<open>null\<close>.\<close>

definition FormData_get :: "form_data \<Rightarrow> string \<Rightarrow> entry option" where
  "FormData_get formData name = map_of formData name"

text \<open>A request is what \<open>request.formData()\<close> resolves to or rejects with.\<close>

type_synonym request = "thrown + form_data"

text \<open>
  The backend's response: its status and what \<open>response.json()\<close> resolves to or rejects
  with.
\<close>

record response =
  status :: nat
  json_result :: "thrown + json"

definition ok :: "response \<Rightarrow> bool" where
  "ok r = (200 \<le> status r \<and> status r \<le> 299)"

record blob =
  blob_content :: string
  blob_type :: string

datatype effect =
    Fetch string form_data
  | ConsoleError thrown
  | ReadAsDataURL File
  | Download string blob

text \<open>The calls to the backend among the effects of a handler.\<close>

fun fetch_calls :: "effect list \<Rightarrow> (string \<times> form_data) list" where
  "fetch_calls [] = []"
| "fetch_calls (Fetch url body # es) = (url, body) # fetch_calls es"
| "fetch_calls (e # es) = fetch_calls es"

text \<open>
  Everything outside the handlers: the environment variables, the network (\<open>fetch\<close>
  resolves to a response or rejects) and the engine's printing of numbers.
\<close>

record world =
  BACKEND_URL :: "string option"
  NEXT_PUBLIC_BACKEND_URL :: "string option"
  NODE_ENV :: "string option"
  fetch :: "string \<Rightarrow> form_data \<Rightarrow> thrown + response"
  number_to_string :: "rat \<Rightarrow> string"

text \<open>\<open>process.env.X || fallback\<close>: an unset or empty variable gives the fallback.\<close>

definition env_or :: "string option \<Rightarrow> string \<Rightarrow> string" where
  "env_or v fallback = (case v of None \<Rightarrow> fallback | Some u \<Rightarrow> if u = [] then fallback else u)"

section \<open>Messages\<close>

definition msg_file_missing :: string where
  "msg_file_missing =
     [CHR 0xE3, CHR 0x83, CHR 0x95, CHR 0xE3, CHR 0x82, CHR 0xA1, CHR 0xE3, CHR 0x82, CHR 0xA4,
      CHR 0xE3, CHR 0x83, CHR 0xAB, CHR 0xE3, CHR 0x81, CHR 0x8C, CHR 0xE8, CHR 0xA6, CHR 0x8B,
      CHR 0xE3, CHR 0x81, CHR 0xA4, CHR 0xE3, CHR 0x81, CHR 0x8B, CHR 0xE3, CHR 0x82, CHR 0x8A,
      CHR 0xE3, CHR 0x81, CHR 0xBE, CHR 0xE3, CHR 0x81, CHR 0x9B, CHR 0xE3, CHR 0x82, CHR 0x93]"

definition msg_file_too_large :: string where
  "msg_file_too_large =
     [CHR 0xE3, CHR 0x83, CHR 0x95, CHR 0xE3, CHR 0x82, CHR 0xA1, CHR 0xE3, CHR 0x82, CHR 0xA4,
      CHR 0xE3, CHR 0x83, CHR 0xAB, CHR 0xE3, CHR 0x82, CHR 0xB5, CHR 0xE3, CHR 0x82, CHR 0xA4,
      CHR 0xE3, CHR 0x82, CHR 0xBA, CHR 0xE3, CHR 0x81, CHR 0xAF] @ ''10MB'' @
     [CHR 0xE4, CHR 0xBB, CHR 0xA5, CHR 0xE4, CHR 0xB8, CHR 0x8B, CHR 0xE3, CHR 0x81, CHR 0xAB,
      CHR 0xE3, CHR 0x81, CHR 0x97, CHR 0xE3, CHR 0x81, CHR 0xA6, CHR 0xE3, CHR 0x81, CHR 0x8F,
      CHR 0xE3, CHR 0x81, CHR 0xA0, CHR 0xE3, CHR 0x81, CHR 0x95, CHR 0xE3, CHR 0x81, CHR 0x84]"

definition msg_not_image :: string where
  "msg_not_image =
     [CHR 0xE7, CHR 0x94, CHR 0xBB, CHR 0xE5, CHR 0x83, CHR 0x8F, CHR 0xE3, CHR 0x83, CHR 0x95,
      CHR 0xE3, CHR 0x82, CHR 0xA1, CHR 0xE3, CHR 0x82, CHR 0xA4, CHR 0xE3, CHR 0x83, CHR 0xAB,
      CHR 0xE3, CHR 0x82, CHR 0x92, CHR 0xE9, CHR 0x81, CHR 0xB8, CHR 0xE6, CHR 0x8A, CHR 0x9E,
      CHR 0xE3, CHR 0x81, CHR 0x97, CHR 0xE3, CHR 0x81, CHR 0xA6, CHR 0xE3, CHR 0x81, CHR 0x8F,
      CHR 0xE3, CHR 0x81, CHR 0xA0, CHR 0xE3, CHR 0x81, CHR 0x95, CHR 0xE3, CHR 0x81, CHR 0x84]"

definition msg_backend_error :: string where
  "msg_backend_error =
     [CHR 0xE3, CHR 0x83, CHR 0x90, CHR 0xE3, CHR 0x83, CHR 0x83, CHR 0xE3, CHR 0x82, CHR 0xAF,
      CHR 0xE3, CHR 0x82, CHR 0xA8, CHR 0xE3, CHR 0x83, CHR 0xB3, CHR 0xE3, CHR 0x83, CHR 0x89,
      CHR 0xE3, CHR 0x82, CHR 0xB5, CHR 0xE3, CHR 0x83, CHR 0xBC, CHR 0xE3, CHR 0x83, CHR 0x90,
      CHR 0xE3, CHR 0x83, CHR 0xBC, CHR 0xE3, CHR 0x82, CHR 0xA8, CHR 0xE3, CHR 0x83, CHR 0xA9,
      CHR 0xE3, CHR 0x83, CHR 0xBC]"

definition msg_http_error :: "nat \<Rightarrow> string" where
  "msg_http_error st =
     ''HTTP'' @ [CHR 0xE3, CHR 0x82, CHR 0xA8, CHR 0xE3, CHR 0x83, CHR 0xA9, CHR 0xE3, CHR 0x83,
      CHR 0xBC] @ '': '' @ nat_to_string st"

definition msg_ocr_error :: string where
  "msg_ocr_error =
     ''OCR'' @ [CHR 0xE5, CHR 0x87, CHR 0xA6, CHR 0xE7, CHR 0x90, CHR 0x86, CHR 0xE3, CHR 0x81,
      CHR 0xA7, CHR 0xE3, CHR 0x82, CHR 0xA8, CHR 0xE3, CHR 0x83, CHR 0xA9, CHR 0xE3, CHR 0x83,
      CHR 0xBC, CHR 0xE3, CHR 0x81, CHR 0x8C, CHR 0xE7, CHR 0x99, CHR 0xBA, CHR 0xE7, CHR 0x94,
      CHR 0x9F, CHR 0xE3, CHR 0x81, CHR 0x97, CHR 0xE3, CHR 0x81, CHR 0xBE, CHR 0xE3, CHR 0x81,
      CHR 0x97, CHR 0xE3, CHR 0x81, CHR 0x9F]"

definition msg_ocr_failed :: string where
  "msg_ocr_failed =
     ''OCR'' @ [CHR 0xE5, CHR 0x87, CHR 0xA6, CHR 0xE7, CHR 0x90, CHR 0x86, CHR 0xE3, CHR 0x81,
      CHR 0xAB, CHR 0xE5, CHR 0xA4, CHR 0xB1, CHR 0xE6, CHR 0x95, CHR 0x97, CHR 0xE3, CHR 0x81,
      CHR 0x97, CHR 0xE3, CHR 0x81, CHR 0xBE, CHR 0xE3, CHR 0x81, CHR 0x97, CHR 0xE3, CHR 0x81,
      CHR 0x9F]"

section \<open>The proxy route: \<open>app/api/ocr/route.ts\<close>\<close>

record http_reply =
  reply_status :: nat
  reply_body :: json

text \<open>
  \<open>NextResponse.json(obj, {status})\<close> serialises the object literal with
  \<open>JSON.stringify\<close>, which leaves out a property whose value is \<open>undefined\<close>.
\<close>

fun defined_props :: "(string \<times> jsval) list \<Rightarrow> (string \<times> json) list" where
  "defined_props [] = []"
| "defined_props ((k, None) # ps) = defined_props ps"
| "defined_props ((k, Some v) # ps) = (k, v) # defined_props ps"

definition NextResponse_json :: "(string \<times> jsval) list \<Rightarrow> nat \<Rightarrow> http_reply" where
  "NextResponse_json obj st = \<lparr>reply_status = st, reply_body = JObj (defined_props obj)\<rparr>"

definition error_reply :: "string \<Rightarrow> nat \<Rightarrow> http_reply" where
  "error_reply msg st = NextResponse_json [(''error'', Some (JStr msg))] st"

text \<open>
  Lines 43 to 46: the backend answered with a status outside 200..299. The body is parsed,
  with \<open>{ error: ... }\<close> in its place when parsing fails, and \<open>new Error\<close> is given
  \<open>errorData.error || `HTTP...: ${status}`\<close>, which it converts to a string for the
  message. What is thrown is that \<open>Error\<close>, or the TypeError of the property read or of the
  conversion.
\<close>

definition backend_failure :: "world \<Rightarrow> response \<Rightarrow> thrown" where
  "backend_failure w r =
     (let errorData = (case json_result r of
                         Inl e \<Rightarrow> JObj [(''error'', JStr msg_backend_error)]
                       | Inr d \<Rightarrow> d)
      in case get_prop errorData ''error'' of
           Inl e \<Rightarrow> e
         | Inr v \<Rightarrow>
             (case ToString_val (number_to_string w)
                     (or_else v (Some (JStr (msg_http_error (status r))))) of
                None \<Rightarrow> TypeError_convert
              | Some message \<Rightarrow> ErrorInstance ''Error'' message))"

text \<open>Lines 48 to 55: the body of a 2xx response is parsed and reshaped.\<close>

definition reshape :: "response \<Rightarrow> thrown + http_reply" where
  "reshape r =
     (case json_result r of
        Inl e \<Rightarrow> Inl e
      | Inr result \<Rightarrow>
          (case get_prop result ''text'' of
             Inl e \<Rightarrow> Inl e
           | Inr t \<Rightarrow>
          (case get_prop result ''confidence'' of
             Inl e \<Rightarrow> Inl e
           | Inr c \<Rightarrow>
          (case get_prop result ''layout'' of
             Inl e \<Rightarrow> Inl e
           | Inr l \<Rightarrow>
          (case get_prop result ''processing_time'' of
             Inl e \<Rightarrow> Inl e
           | Inr p \<Rightarrow>
               Inr (NextResponse_json
                     [(''text'', or_else t (Some (JStr []))),
                      (''confidence'', or_else c (Some JNull)),
                      (''layout'', or_else l (Some JNull)),
                      (''processing_time'', or_else p (Some JNull))] 200))))))"

text \<open>Lines 31 to 55: the file is forwarded to the backend in one \<open>fetch\<close>.\<close>

definition backend_endpoint :: "world \<Rightarrow> string" where
  "backend_endpoint w =
     (let backendUrl = env_or (BACKEND_URL w) ''http://localhost:8000''
      in backendUrl @ ''/api/v1/ocr/process'')"

definition forward :: "world \<Rightarrow> File \<Rightarrow> effect list \<times> (thrown + http_reply)" where
  "forward w f =
     (let backendFormData = [(''file'', FileEntry f)]
      in ([Fetch (backend_endpoint w) backendFormData],
          case fetch w (backend_endpoint w) backendFormData of
            Inl e \<Rightarrow> Inl e
          | Inr r \<Rightarrow> if \<not> ok r then Inl (backend_failure w r) else reshape r))"

text \<open>
  Lines 5 to 55, the body of the \<open>try\<close>: the effects performed, and the reply returned or
  the value thrown. A string under the name \<open>file\<close> is falsy when empty; otherwise its
  \<open>size\<close> is \<open>undefined\<close>, which is not greater than the limit, and reading \<open>startsWith\<close>
  of its \<open>type\<close> throws.
\<close>

definition POST_try :: "world \<Rightarrow> request \<Rightarrow> effect list \<times> (thrown + http_reply)" where
  "POST_try w request =
     (case request of
        Inl e \<Rightarrow> ([], Inl e)
      | Inr formData \<Rightarrow>
          (case FormData_get formData ''file'' of
             None \<Rightarrow> ([], Inr (error_reply msg_file_missing 400))
           | Some (StringEntry s) \<Rightarrow>
               if s = [] then ([], Inr (error_reply msg_file_missing 400))
               else ([], Inl (TypeError_read ''undefined'' ''startsWith''))
           | Some (FileEntry f) \<Rightarrow>
               if file_size f > 10 * 1024 * 1024 then ([], Inr (error_reply msg_file_too_large 400))
               else if \<not> prefix ''image/'' (file_type f) then ([], Inr (error_reply msg_not_image 400))
               else forward w f))"

text \<open>
  Lines 60 to 66, the reply of the \<open>catch\<close>: status 500 with the message of the thrown
  value. In development \<open>String(error)\<close> is added as \<open>details\<close>; when that conversion
  throws, no reply is built and the TypeError leaves the handler.
\<close>

definition caught :: "world \<Rightarrow> thrown \<Rightarrow> thrown + http_reply" where
  "caught w err =
     (let message = (case err of
                       ErrorInstance name msg \<Rightarrow> msg
                     | ThrownValue v \<Rightarrow> msg_ocr_error)
      in if NODE_ENV w = Some ''development''
         then (case String_thrown (number_to_string w) err of
                 None \<Rightarrow> Inl TypeError_convert
               | Some details \<Rightarrow>
                   Inr (NextResponse_json
                         [(''error'', Some (JStr message)), (''details'', Some (JStr details))] 500))
         else Inr (NextResponse_json
                    [(''error'', Some (JStr message)), (''details'', None)] 500))"

text \<open>
  Lines 3 to 68: the handler. It returns the effects performed and the reply, or the value
  with which its promise rejects. A value thrown in the \<open>try\<close> is first written to the
  console.
\<close>

definition POST :: "world \<Rightarrow> request \<Rightarrow> effect list \<times> (thrown + http_reply)" where
  "POST w request =
     (case POST_try w request of
        (effs, Inr reply) \<Rightarrow> (effs, Inr reply)
      | (effs, Inl err) \<Rightarrow> (effs @ [ConsoleError err], caught w err))"

text \<open>The keys of a reply's JSON object, and the value under a key.\<close>

fun keys :: "json \<Rightarrow> string list" where
  "keys (JObj kvs) = map fst kvs"
| "keys v = []"

fun field :: "json \<Rightarrow> string \<Rightarrow> jsval" where
  "field (JObj kvs) k = map_of kvs k"
| "field v k = None"

section \<open>The page: \<open>app/page.tsx\<close>\<close>

text \<open>
  The five pieces of state of the component \<open>Home\<close>. \<open>ocrResult\<close> holds whatever
  \<open>response.json()\<close> resolved to, \<open>JNull\<close> being \<open>null\<close>.
\<close>

record ui_state =
  "file" :: "File option"
  imagePreview :: string
  ocrResult :: json
  isProcessing :: bool
  error :: string

definition initial_state :: ui_state where
  "initial_state =
     \<lparr>file = None, imagePreview = [], ocrResult = JNull, isProcessing = False, error = []\<rparr>"

text \<open>
  Lines 23 to 38. \<open>acceptedFiles[0]\<close> is \<open>undefined\<close> for an empty selection. The preview
  is not set here but when the reader has loaded the file (\<open>reader_onload\<close>).
\<close>

definition onDrop :: "File list \<Rightarrow> ui_state \<Rightarrow> ui_state \<times> effect list" where
  "onDrop acceptedFiles s =
     (case acceptedFiles of
        [] \<Rightarrow> (s\<lparr>error := msg_not_image\<rparr>, [])
      | f # rest \<Rightarrow>
          if prefix ''image/'' (file_type f)
          then (s\<lparr>file := Some f, error := []\<rparr>, [ReadAsDataURL f])
          else (s\<lparr>error := msg_not_image\<rparr>, []))"

definition reader_onload :: "string \<Rightarrow> ui_state \<Rightarrow> ui_state" where
  "reader_onload reader_result s = s\<lparr>imagePreview := reader_result\<rparr>"

text \<open>Lines 69 to 73: the \<open>catch\<close> and the \<open>finally\<close> of \<open>processOCR\<close>.\<close>

definition processOCR_failed :: "thrown \<Rightarrow> ui_state \<Rightarrow> ui_state" where
  "processOCR_failed err s =
     s\<lparr>error := (case err of ErrorInstance name msg \<Rightarrow> msg | ThrownValue v \<Rightarrow> msg_ocr_error),
       isProcessing := False\<rparr>"

text \<open>Lines 48 to 74.\<close>

definition public_endpoint :: "world \<Rightarrow> string" where
  "public_endpoint w =
     env_or (NEXT_PUBLIC_BACKEND_URL w) ''https://ocr-app-production-91fe.up.railway.app''
       @ ''/api/v1/ocr/process''"

definition processOCR :: "world \<Rightarrow> ui_state \<Rightarrow> ui_state \<times> effect list" where
  "processOCR w s =
     (case file s of
        None \<Rightarrow> (s, [])
      | Some f \<Rightarrow>
          (let s1 = s\<lparr>isProcessing := True, error := []\<rparr>;
               formData = [(''file'', FileEntry f)]
           in (case fetch w (public_endpoint w) formData of
                 Inl e \<Rightarrow> processOCR_failed e s1
               | Inr r \<Rightarrow>
                   if \<not> ok r then processOCR_failed (ErrorInstance ''Error'' msg_ocr_failed) s1
                   else (case json_result r of
                           Inl e \<Rightarrow> processOCR_failed e s1
                         | Inr result \<Rightarrow> s1\<lparr>ocrResult := result, isProcessing := False\<rparr>),
               [Fetch (public_endpoint w) formData])))"

text \<open>
  Lines 76 to 88: the anchor that is created and clicked downloads a blob under the name
  \<open>ocr-result-${Date.now()}.txt\<close>. The blob's only part is \<open>ocrResult.text\<close>, which the
  \<open>Blob\<close> constructor converts to a string; when the conversion throws, the handler ends
  there and nothing is downloaded.
\<close>

definition downloadResult :: "world \<Rightarrow> nat \<Rightarrow> ui_state \<Rightarrow> effect list" where
  "downloadResult w now s =
     (if \<not> truthy (Some (ocrResult s)) then []
      else (case get_prop (ocrResult s) ''text'' of
              Inl e \<Rightarrow> []
            | Inr t \<Rightarrow>
                (case ToString_val (number_to_string w) t of
                   None \<Rightarrow> []
                 | Some content \<Rightarrow>
                     [Download (''ocr-result-'' @ nat_to_string now @ ''.txt'')
                        \<lparr>blob_content = content, blob_type = ''text/plain''\<rparr>])))"

text \<open>Lines 90 to 95.\<close>

definition resetAll :: "ui_state \<Rightarrow> ui_state" where
  "resetAll s = s\<lparr>file := None, imagePreview := [], ocrResult := JNull, error := []\<rparr>"

text \<open>
  What the component renders (lines 143 to 308): the preview block, which holds the reset
  and the process buttons, the process button being disabled while a request is in flight;
  the error box; the result block with the download button; the busy indicator; the guide.
\<close>

record view =
  preview_block :: bool
  process_button :: bool
  process_disabled :: bool
  error_box :: bool
  result_block :: bool
  busy_indicator :: bool
  guide :: bool

definition render :: "ui_state \<Rightarrow> view" where
  "render s =
     \<lparr>preview_block = (imagePreview s \<noteq> []),
      process_button = (imagePreview s \<noteq> []),
      process_disabled = isProcessing s,
      error_box = (error s \<noteq> []),
      result_block = truthy (Some (ocrResult s)),
      busy_indicator = isProcessing s,
      guide = (file s = None \<and> \<not> truthy (Some (ocrResult s)))\<rparr>"

section \<open>Example inputs\<close>

text \<open>A backend that answers every request with the same response, and one that is unreachable.\<close>

definition resolves_with :: "response \<Rightarrow> string \<Rightarrow> form_data \<Rightarrow> thrown + response" where
  "resolves_with r url body = Inr r"

definition rejects_with :: "thrown \<Rightarrow> string \<Rightarrow> form_data \<Rightarrow> thrown + response" where
  "rejects_with e url body = Inl e"

text \<open>A printing of numbers for the examples, exact on integers below \<open>10^21\<close>.\<close>

definition print_integer :: "rat \<Rightarrow> string" where
  "print_integer n = (if n < 0 then ''-'' else []) @ nat_to_string (nat \<lfloor>\<bar>n\<bar>\<rfloor>)"

text \<open>A production deployment with no backend URL configured, in front of a given network.\<close>

definition production :: "(string \<Rightarrow> form_data \<Rightarrow> thrown + response) \<Rightarrow> world" where
  "production net =
     \<lparr>BACKEND_URL = None, NEXT_PUBLIC_BACKEND_URL = None, NODE_ENV = Some ''production'',
      fetch = net, number_to_string = print_integer\<rparr>"

definition png :: "nat \<Rightarrow> File" where
  "png n = \<lparr>file_name = ''scan.png'', file_size = n, file_type = ''image/png''\<rparr>"

definition pdf :: "nat \<Rightarrow> File" where
  "pdf n = \<lparr>file_name = ''scan.pdf'', file_size = n, file_type = ''application/pdf''\<rparr>"

text \<open>An upload of one file under the field name \<open>file\<close>.\<close>

definition upload :: "File \<Rightarrow> request" where
  "upload f = Inr [(''file'', FileEntry f)]"


section \<open>Properties of the proxy route\<close>

subsection \<open>Auxiliary facts\<close>

lemma msg_not_image_nonempty: "msg_not_image \<noteq> []"
  by (simp add: msg_not_image_def)




lemma fetch_calls_append_ConsoleError:
  "fetch_calls (es @ [ConsoleError e]) = fetch_calls es"
  by (induction es rule: fetch_calls.induct) simp_all


lemma POST_file_too_large:
  "FormData_get formData ''file'' = Some (FileEntry f) \<Longrightarrow> 10 * 1024 * 1024 < file_size f \<Longrightarrow>
   POST w (Inr formData) = ([], Inr (error_reply msg_file_too_large 400))"
  by (simp add: POST_def POST_try_def)

lemma POST_not_image:
  "FormData_get formData ''file'' = Some (FileEntry f) \<Longrightarrow> file_size f \<le> 10 * 1024 * 1024 \<Longrightarrow>
   \<not> prefix ''image/'' (file_type f) \<Longrightarrow>
   POST w (Inr formData) = ([], Inr (error_reply msg_not_image 400))"
  by (simp add: POST_def POST_try_def)

lemma POST_try_accepted:
  "FormData_get formData ''file'' = Some (FileEntry f) \<Longrightarrow> file_size f \<le> 10 * 1024 * 1024 \<Longrightarrow>
   prefix ''image/'' (file_type f) \<Longrightarrow>
   POST_try w (Inr formData) = forward w f"
  by (simp add: POST_try_def)



lemma forward_effects: "fst (forward w f) = [Fetch (backend_endpoint w) [(''file'', FileEntry f)]]"
  by (simp add: forward_def Let_def)

lemma POST_fetch_calls: "fetch_calls (fst (POST w request)) = fetch_calls (fst (POST_try w request))"
  by (cases "POST_try w request"; cases "snd (POST_try w request)")
     (simp_all add: POST_def fetch_calls_append_ConsoleError)

lemma POST_accepted_calls:
  "FormData_get formData ''file'' = Some (FileEntry f) \<Longrightarrow> file_size f \<le> 10 * 1024 * 1024 \<Longrightarrow>
   prefix ''image/'' (file_type f) \<Longrightarrow>
   fetch_calls (fst (POST w (Inr formData))) = [(backend_endpoint w, [(''file'', FileEntry f)])]"
  by (simp add: POST_fetch_calls POST_try_accepted forward_effects)

text \<open>The reply of the \<open>catch\<close>, when it builds one.\<close>

lemma caught_reply:
  "caught w err = Inr reply \<Longrightarrow>
   reply_status reply = 500 \<and>
   field (reply_body reply) ''error'' =
     Some (JStr (case err of ErrorInstance name msg \<Rightarrow> msg | ThrownValue v \<Rightarrow> msg_ocr_error)) \<and>
   ''model_used'' \<notin> set (keys (reply_body reply))"
  by (auto simp add: caught_def Let_def NextResponse_json_def split: if_splits option.splits)


text \<open>The reply to a request that passed the checks, by what the backend did.\<close>

lemma reply_status_reshape: "reshape r = Inr reply \<Longrightarrow> reply_status reply = 200"
  by (auto simp add: reshape_def NextResponse_json_def split: sum.splits)

lemma POST_accepted_status:
  assumes "FormData_get formData ''file'' = Some (FileEntry f)"
    and "file_size f \<le> 10 * 1024 * 1024" and "prefix ''image/'' (file_type f)"
    and "snd (POST w (Inr formData)) = Inr reply"
  shows "reply_status reply = 200 \<or> reply_status reply = 500"
proof (cases "snd (forward w f)")
  case (Inl e)
  with assms have "caught w e = Inr reply"
    by (cases "forward w f") (simp add: POST_def POST_try_accepted)
  then show ?thesis
    by (simp add: caught_reply)
next
  case (Inr reply')
  with assms have reply: "snd (forward w f) = Inr reply"
    by (cases "forward w f") (simp add: POST_def POST_try_accepted)
  then have "reshape r = Inr reply" if "fetch w (backend_endpoint w) [(''file'', FileEntry f)] = Inr r" for r
    using that by (simp add: forward_def Let_def split: if_splits)
  with reply show ?thesis
    by (auto simp add: forward_def Let_def reply_status_reshape split: sum.splits if_splits)
qed

lemma POST_backend_ok:
  assumes "FormData_get formData ''file'' = Some (FileEntry f)"
    and "file_size f \<le> 10 * 1024 * 1024" and "prefix ''image/'' (file_type f)"
    and "fetch w (backend_endpoint w) [(''file'', FileEntry f)] = Inr r" and "ok r"
  shows "snd (POST w (Inr formData)) = (case reshape r of Inl e \<Rightarrow> caught w e | Inr reply \<Rightarrow> Inr reply)"
  using assms by (simp add: POST_def POST_try_accepted forward_def Let_def split: sum.splits)


lemma reshape_not_null:
  assumes "json_result r = Inr body" and "body \<noteq> JNull"
  shows "\<exists>t c l p. get_prop body ''text'' = Inr t \<and> get_prop body ''confidence'' = Inr c \<and>
           get_prop body ''layout'' = Inr l \<and> get_prop body ''processing_time'' = Inr p \<and>
           reshape r = Inr (NextResponse_json
                     [(''text'', or_else t (Some (JStr []))),
                      (''confidence'', or_else c (Some JNull)),
                      (''layout'', or_else l (Some JNull)),
                      (''processing_time'', or_else p (Some JNull))] 200)"
  using assms by (cases body) (simp_all add: reshape_def)

lemma or_else_defined: "\<exists>v. or_else a (Some d) = Some v"
  by (cases a) (simp_all add: or_else_def)

lemma keys_error_reply: "keys (reply_body (error_reply msg st)) = [''error'']"
  by (simp add: error_reply_def NextResponse_json_def)

lemma keys_reshape:
  "reshape r = Inr reply \<Longrightarrow>
   keys (reply_body reply) = [''text'', ''confidence'', ''layout'', ''processing_time'']"
proof -
  assume reshaped: "reshape r = Inr reply"
  then obtain body where body: "json_result r = Inr body"
    by (cases "json_result r") (simp_all add: reshape_def)
  with reshaped have "body \<noteq> JNull"
    by (auto simp add: reshape_def)
  from reshape_not_null [OF body this] reshaped obtain t c l p where
    reply: "reply = NextResponse_json
                     [(''text'', or_else t (Some (JStr []))),
                      (''confidence'', or_else c (Some JNull)),
                      (''layout'', or_else l (Some JNull)),
                      (''processing_time'', or_else p (Some JNull))] 200"
    by auto
  obtain t' c' l' p' where
    "or_else t (Some (JStr [])) = Some t'" "or_else c (Some JNull) = Some c'"
    "or_else l (Some JNull) = Some l'" "or_else p (Some JNull) = Some p'"
    using or_else_defined by metis
  with reply show ?thesis
    by (simp add: NextResponse_json_def)
qed

lemma POST_try_no_model_used:
  "snd (POST_try w request) = Inr reply \<Longrightarrow> ''model_used'' \<notin> set (keys (reply_body reply))"
  by (auto simp add: POST_try_def forward_def Let_def keys_error_reply keys_reshape
      split: sum.splits option.splits entry.splits if_splits)





text \<open>
  What the reshaping keeps: a truthy value under one of the four keys is returned as it is.
\<close>

lemma POST_passes_truthy_field:
  assumes "FormData_get formData ''file'' = Some (FileEntry f)"
    and "file_size f \<le> 10 * 1024 * 1024" and "prefix ''image/'' (file_type f)"
    and "fetch w (backend_endpoint w) [(''file'', FileEntry f)] = Inr r" and "ok r"
    and "json_result r = Inr body"
    and "k \<in> {''text'', ''confidence'', ''layout'', ''processing_time''}"
    and "get_prop body k = Inr v" and "truthy v"
  shows "\<exists>reply. snd (POST w (Inr formData)) = Inr reply \<and> field (reply_body reply) k = v"
proof -
  from assms(8) have "body \<noteq> JNull"
    by (auto simp add: TypeError_read_def)
  from reshape_not_null [OF assms(6) this] obtain t c l p where
    props: "get_prop body ''text'' = Inr t" "get_prop body ''confidence'' = Inr c"
      "get_prop body ''layout'' = Inr l" "get_prop body ''processing_time'' = Inr p"
    and reshaped: "reshape r = Inr (NextResponse_json
                     [(''text'', or_else t (Some (JStr []))),
                      (''confidence'', or_else c (Some JNull)),
                      (''layout'', or_else l (Some JNull)),
                      (''processing_time'', or_else p (Some JNull))] 200)"
    by blast
  obtain t' c' l' p' where defined:
    "or_else t (Some (JStr [])) = Some t'" "or_else c (Some JNull) = Some c'"
    "or_else l (Some JNull) = Some l'" "or_else p (Some JNull) = Some p'"
    using or_else_defined by metis
  define reply where "reply = NextResponse_json [(''text'', Some t'), (''confidence'', Some c'),
    (''layout'', Some l'), (''processing_time'', Some p')] 200"
  have reply: "snd (POST w (Inr formData)) = Inr reply"
    using POST_backend_ok [OF assms(1-5)] reshaped defined by (simp add: reply_def)
  from assms(7) consider "k = ''text''" | "k = ''confidence''" | "k = ''layout''" | "k = ''processing_time''"
    by blast
  then have "field (reply_body reply) k = v"
  proof cases
    case 1
    with assms(8,9) props(1) defined(1) show ?thesis
      by (simp add: reply_def NextResponse_json_def or_else_def)
  next
    case 2
    with assms(8,9) props(2) defined(2) show ?thesis
      by (simp add: reply_def NextResponse_json_def or_else_def)
  next
    case 3
    with assms(8,9) props(3) defined(3) show ?thesis
      by (simp add: reply_def NextResponse_json_def or_else_def)
  next
    case 4
    with assms(8,9) props(4) defined(4) show ?thesis
      by (simp add: reply_def NextResponse_json_def or_else_def)
  qed
  with reply show ?thesis
    by blast
qed

subsection \<open>The claims about the proxy route\<close>

text \<open>
  Claim C3. A file of exactly 10 MiB passes the size check: with an image type it is
  forwarded in one call to the backend and the reply is not a 400, and with another type it
  is the type check that rejects it. A file of 10 MiB + 1 byte is answered with status 400
  and an error object, and no call to the backend is made.
\<close>

theorem POST_size_boundary:
  assumes "FormData_get formData ''file'' = Some (FileEntry f)"
  shows "(file_size f = 10 * 1024 * 1024 \<longrightarrow>
            (if prefix ''image/'' (file_type f)
             then fetch_calls (fst (POST w (Inr formData))) =
                    [(backend_endpoint w, [(''file'', FileEntry f)])] \<and>
                  (\<forall>reply. snd (POST w (Inr formData)) = Inr reply \<longrightarrow> reply_status reply \<noteq> 400)
             else POST w (Inr formData) = ([], Inr (error_reply msg_not_image 400)))) \<and>
         (file_size f = 10 * 1024 * 1024 + 1 \<longrightarrow>
            POST w (Inr formData) = ([], Inr (error_reply msg_file_too_large 400)) \<and>
            (\<exists>reply. snd (POST w (Inr formData)) = Inr reply \<and> reply_status reply = 400 \<and>
               field (reply_body reply) ''error'' = Some (JStr msg_file_too_large)) \<and>
            fetch_calls (fst (POST w (Inr formData))) = [])"
proof (intro conjI impI)
  assume size: "file_size f = 10 * 1024 * 1024"
  then have le: "file_size f \<le> 10 * 1024 * 1024"
    by simp
  show "if prefix ''image/'' (file_type f)
        then fetch_calls (fst (POST w (Inr formData))) =
               [(backend_endpoint w, [(''file'', FileEntry f)])] \<and>
             (\<forall>reply. snd (POST w (Inr formData)) = Inr reply \<longrightarrow> reply_status reply \<noteq> 400)
        else POST w (Inr formData) = ([], Inr (error_reply msg_not_image 400))"
  proof (cases "prefix ''image/'' (file_type f)")
    case True
    have "reply_status reply \<noteq> 400" if "snd (POST w (Inr formData)) = Inr reply" for reply
      using POST_accepted_status [OF assms le True that] by auto
    moreover from assms le True
    have "fetch_calls (fst (POST w (Inr formData))) = [(backend_endpoint w, [(''file'', FileEntry f)])]"
      by (rule POST_accepted_calls)
    ultimately show ?thesis
      using True by simp
  next
    case False
    from assms le False have "POST w (Inr formData) = ([], Inr (error_reply msg_not_image 400))"
      by (rule POST_not_image)
    with False show ?thesis
      by simp
  qed
next
  assume size: "file_size f = 10 * 1024 * 1024 + 1"
  then have "10 * 1024 * 1024 < file_size f"
    by simp
  with assms have reply: "POST w (Inr formData) = ([], Inr (error_reply msg_file_too_large 400))"
    by (rule POST_file_too_large)
  then show "POST w (Inr formData) = ([], Inr (error_reply msg_file_too_large 400))" .
  from reply show "\<exists>reply. snd (POST w (Inr formData)) = Inr reply \<and> reply_status reply = 400 \<and>
               field (reply_body reply) ''error'' = Some (JStr msg_file_too_large)"
    by (simp add: error_reply_def NextResponse_json_def)
  from reply show "fetch_calls (fst (POST w (Inr formData))) = []"
    by simp
qed

text \<open>A PNG and a PDF of exactly 10 MiB, and a PNG one byte larger.\<close>

theorem POST_size_boundary_witness:
  "fetch_calls (fst (POST (production (resolves_with \<lparr>status = 200, json_result = Inr (JObj [(''text'', JStr ''hello'')])\<rparr>))
      (upload (png (10 * 1024 * 1024))))) =
     [(''http://localhost:8000/api/v1/ocr/process'', [(''file'', FileEntry (png (10 * 1024 * 1024)))])] \<and>
   POST (production (resolves_with \<lparr>status = 200, json_result = Inr (JObj [(''text'', JStr ''hello'')])\<rparr>))
      (upload (pdf (10 * 1024 * 1024))) = ([], Inr (error_reply msg_not_image 400)) \<and>
   POST (production (resolves_with \<lparr>status = 200, json_result = Inr (JObj [(''text'', JStr ''hello'')])\<rparr>))
      (upload (png (10 * 1024 * 1024 + 1))) = ([], Inr (error_reply msg_file_too_large 400))"
  using POST_size_boundary [of "[(''file'', FileEntry (png (10 * 1024 * 1024)))]" "png (10 * 1024 * 1024)"
      "production (resolves_with \<lparr>status = 200, json_result = Inr (JObj [(''text'', JStr ''hello'')])\<rparr>)"]
    POST_size_boundary [of "[(''file'', FileEntry (pdf (10 * 1024 * 1024)))]" "pdf (10 * 1024 * 1024)"
      "production (resolves_with \<lparr>status = 200, json_result = Inr (JObj [(''text'', JStr ''hello'')])\<rparr>)"]
    POST_size_boundary [of "[(''file'', FileEntry (png (10 * 1024 * 1024 + 1)))]" "png (10 * 1024 * 1024 + 1)"
      "production (resolves_with \<lparr>status = 200, json_result = Inr (JObj [(''text'', JStr ''hello'')])\<rparr>)"]
  by (simp add: upload_def FormData_get_def png_def pdf_def production_def backend_endpoint_def env_or_def)




text \<open>
  Claim C1, as amended. For every 2xx response of the backend whose JSON body is not
  \<open>null\<close>, the handler replies with status 200 and a JSON object with exactly the keys
  \<open>text\<close>, \<open>confidence\<close>, \<open>layout\<close> and \<open>processing_time\<close>, and each of the three
  optional keys that the body lacks is \<open>null\<close> in the reply.
\<close>

theorem POST_success_shape:
  assumes "FormData_get formData ''file'' = Some (FileEntry f)"
    and "file_size f \<le> 10 * 1024 * 1024" and "prefix ''image/'' (file_type f)"
    and "fetch w (backend_endpoint w) [(''file'', FileEntry f)] = Inr r" and "ok r"
    and "json_result r = Inr body" and "body \<noteq> JNull"
  shows "\<exists>reply. snd (POST w (Inr formData)) = Inr reply \<and>
           reply_status reply = 200 \<and>
           keys (reply_body reply) = [''text'', ''confidence'', ''layout'', ''processing_time''] \<and>
           (\<forall>k \<in> {''confidence'', ''layout'', ''processing_time''}.
              get_prop body k = Inr None \<longrightarrow> field (reply_body reply) k = Some JNull)"
proof -
  from reshape_not_null [OF assms(6,7)] obtain t c l p where
    props: "get_prop body ''text'' = Inr t" "get_prop body ''confidence'' = Inr c"
      "get_prop body ''layout'' = Inr l" "get_prop body ''processing_time'' = Inr p"
    and reshaped: "reshape r = Inr (NextResponse_json
                     [(''text'', or_else t (Some (JStr []))),
                      (''confidence'', or_else c (Some JNull)),
                      (''layout'', or_else l (Some JNull)),
                      (''processing_time'', or_else p (Some JNull))] 200)"
    by blast
  obtain t' c' l' p' where defined:
    "or_else t (Some (JStr [])) = Some t'" "or_else c (Some JNull) = Some c'"
    "or_else l (Some JNull) = Some l'" "or_else p (Some JNull) = Some p'"
    using or_else_defined by metis
  define reply where "reply = NextResponse_json [(''text'', Some t'), (''confidence'', Some c'),
    (''layout'', Some l'), (''processing_time'', Some p')] 200"
  have "snd (POST w (Inr formData)) = Inr reply"
    using POST_backend_ok [OF assms(1-5)] reshaped defined by (simp add: reply_def)
  moreover have "reply_status reply = 200"
    by (simp add: reply_def NextResponse_json_def)
  moreover have "keys (reply_body reply) = [''text'', ''confidence'', ''layout'', ''processing_time'']"
    by (simp add: reply_def NextResponse_json_def)
  moreover have "get_prop body ''confidence'' = Inr None \<longrightarrow>
      field (reply_body reply) ''confidence'' = Some JNull"
    using props(2) defined(2) by (auto simp add: reply_def NextResponse_json_def or_else_def)
  moreover have "get_prop body ''layout'' = Inr None \<longrightarrow>
      field (reply_body reply) ''layout'' = Some JNull"
    using props(3) defined(3) by (auto simp add: reply_def NextResponse_json_def or_else_def)
  moreover have "get_prop body ''processing_time'' = Inr None \<longrightarrow>
      field (reply_body reply) ''processing_time'' = Some JNull"
    using props(4) defined(4) by (auto simp add: reply_def NextResponse_json_def or_else_def)
  ultimately show ?thesis
    by simp
qed

text \<open>
  The body \<open>{ "text": "hello", "confidence": 0.87 }\<close> is answered with
  \<open>{ text: "hello", confidence: 0.87, layout: null, processing_time: null }\<close>.
\<close>

theorem POST_success_shape_witness:
  "snd (POST (production (resolves_with
          \<lparr>status = 200,
           json_result = Inr (JObj [(''text'', JStr ''hello''), (''confidence'', JNum (87 / 100))])\<rparr>))
        (upload (png 2048)))
   = Inr \<lparr>reply_status = 200,
          reply_body = JObj [(''text'', JStr ''hello''), (''confidence'', JNum (87 / 100)),
                             (''layout'', JNull), (''processing_time'', JNull)]\<rparr>"
  using POST_success_shape [of "[(''file'', FileEntry (png 2048))]" "png 2048"
      "production (resolves_with
          \<lparr>status = 200,
           json_result = Inr (JObj [(''text'', JStr ''hello''), (''confidence'', JNum (87 / 100))])\<rparr>)"
      "\<lparr>status = 200,
           json_result = Inr (JObj [(''text'', JStr ''hello''), (''confidence'', JNum (87 / 100))])\<rparr>"
      "JObj [(''text'', JStr ''hello''), (''confidence'', JNum (87 / 100))]"]
  by (simp add: upload_def FormData_get_def png_def production_def resolves_with_def ok_def
      POST_def POST_try_def forward_def reshape_def or_else_def NextResponse_json_def)

text \<open>
  Claim C1 as it is written fails for a 2xx response whose JSON body is \<open>null\<close>: reading
  \<open>result.text\<close> throws, and the reply is a 500 with the single key \<open>error\<close>.
\<close>

theorem POST_null_body_counterexample:
  "snd (POST (production (resolves_with \<lparr>status = 200, json_result = Inr JNull\<rparr>))
      (upload (png 2048)))
   = Inr \<lparr>reply_status = 500,
          reply_body = JObj [(''error'', JStr (''Cannot read properties of null (reading '' @
                                [CHR 0x27] @ ''text'' @ [CHR 0x27] @ '')''))]\<rparr>"
  by (simp add: upload_def FormData_get_def png_def production_def resolves_with_def ok_def
      POST_def POST_try_def forward_def reshape_def caught_def TypeError_read_def NextResponse_json_def)

text \<open>
  Claim C2 says that a field present in the body is passed through unchanged, also
  \<open>confidence = 0\<close>. The handler at the body \<open>{ "text": "", "confidence": 0 }\<close>: the
  empty text is returned as it is, the confidence \<open>0\<close> is returned as \<open>null\<close>.
\<close>

theorem POST_confidence_zero_replaced:
  "snd (POST (production (resolves_with
          \<lparr>status = 200,
           json_result = Inr (JObj [(''text'', JStr []), (''confidence'', JNum 0)])\<rparr>))
        (upload (png 2048)))
   = Inr \<lparr>reply_status = 200,
          reply_body = JObj [(''text'', JStr []), (''confidence'', JNull),
                             (''layout'', JNull), (''processing_time'', JNull)]\<rparr>"
  by (simp add: upload_def FormData_get_def png_def production_def resolves_with_def ok_def
      POST_def POST_try_def forward_def reshape_def or_else_def NextResponse_json_def)

text \<open>
  Claim C9. No reply of the handler has a key \<open>model_used\<close>, whatever the request and the
  backend's response; in particular the 200 reply to a body that has one does not.
\<close>

theorem POST_never_model_used:
  assumes "snd (POST w request) = Inr reply"
  shows "''model_used'' \<notin> set (keys (reply_body reply))"
proof (cases "snd (POST_try w request)")
  case (Inl e)
  with assms have "caught w e = Inr reply"
    by (cases "POST_try w request") (simp add: POST_def)
  then show ?thesis
    by (simp add: caught_reply)
next
  case (Inr reply')
  with assms have "snd (POST_try w request) = Inr reply"
    by (cases "POST_try w request") (simp add: POST_def)
  then show ?thesis
    by (rule POST_try_no_model_used)
qed

text \<open>A body with \<open>model_used\<close>: the 200 reply has the four keys only.\<close>

theorem POST_never_model_used_witness:
  "snd (POST (production (resolves_with
          \<lparr>status = 200,
           json_result = Inr (JObj [(''text'', JStr ''hello''), (''model_used'', JStr ''dots.ocr'')])\<rparr>))
        (upload (png 2048)))
   = Inr \<lparr>reply_status = 200,
          reply_body = JObj [(''text'', JStr ''hello''), (''confidence'', JNull),
                             (''layout'', JNull), (''processing_time'', JNull)]\<rparr> \<and>
   ''model_used'' \<notin> set (keys (reply_body
       \<lparr>reply_status = 200,
        reply_body = JObj [(''text'', JStr ''hello''), (''confidence'', JNull),
                           (''layout'', JNull), (''processing_time'', JNull)]\<rparr>))"
  using POST_never_model_used [of "production (resolves_with
          \<lparr>status = 200,
           json_result = Inr (JObj [(''text'', JStr ''hello''), (''model_used'', JStr ''dots.ocr'')])\<rparr>)"
        "upload (png 2048)"
        "\<lparr>reply_status = 200,
          reply_body = JObj [(''text'', JStr ''hello''), (''confidence'', JNull),
                             (''layout'', JNull), (''processing_time'', JNull)]\<rparr>"]
  by (simp add: upload_def FormData_get_def png_def production_def resolves_with_def ok_def
      POST_def POST_try_def forward_def reshape_def or_else_def NextResponse_json_def)




section \<open>Properties of the page\<close>

text \<open>
  Claim C6. From any state, \<open>resetAll\<close> sets the selected file to \<open>null\<close>, the preview to
  the empty string, the OCR result to \<open>null\<close> and the error message to the empty string:
  these four pieces of state are as in the initial state, and the busy flag is the only
  piece of state that keeps its value.
\<close>

theorem resetAll_clears:
  "file (resetAll s) = None \<and> imagePreview (resetAll s) = [] \<and> ocrResult (resetAll s) = JNull \<and>
   error (resetAll s) = [] \<and> resetAll s = initial_state\<lparr>isProcessing := isProcessing s\<rparr>"
  by (simp add: resetAll_def initial_state_def)

text \<open>
  Claim C7, as amended. When the page holds a truthy OCR result, \<open>downloadResult\<close>
  downloads at most one file, and its whole content is the string conversion of the
  result's \<open>text\<close> and of nothing else: one file, unless that conversion throws. When the
  result is an object whose \<open>text\<close> is a string, the file's content is that string verbatim.
  When the result is falsy, nothing is downloaded.
\<close>

theorem downloadResult_text_only:
  "(truthy (Some (ocrResult s)) \<longrightarrow>
      (\<exists>v. get_prop (ocrResult s) ''text'' = Inr v \<and>
           downloadResult w now s =
             (case ToString_val (number_to_string w) v of
                None \<Rightarrow> []
              | Some content \<Rightarrow>
                  [Download (''ocr-result-'' @ nat_to_string now @ ''.txt'')
                     \<lparr>blob_content = content, blob_type = ''text/plain''\<rparr>]))) \<and>
   (\<forall>props t. ocrResult s = JObj props \<and> map_of props ''text'' = Some (JStr t) \<longrightarrow>
      downloadResult w now s =
        [Download (''ocr-result-'' @ nat_to_string now @ ''.txt'')
           \<lparr>blob_content = t, blob_type = ''text/plain''\<rparr>]) \<and>
   (\<not> truthy (Some (ocrResult s)) \<longrightarrow> downloadResult w now s = [])"
proof (intro conjI impI allI)
  assume "truthy (Some (ocrResult s))"
  then show "\<exists>v. get_prop (ocrResult s) ''text'' = Inr v \<and>
           downloadResult w now s =
             (case ToString_val (number_to_string w) v of
                None \<Rightarrow> []
              | Some content \<Rightarrow>
                  [Download (''ocr-result-'' @ nat_to_string now @ ''.txt'')
                     \<lparr>blob_content = content, blob_type = ''text/plain''\<rparr>])"
    by (cases "ocrResult s") (simp_all add: downloadResult_def)
next
  fix props t
  assume "ocrResult s = JObj props \<and> map_of props ''text'' = Some (JStr t)"
  then show "downloadResult w now s =
        [Download (''ocr-result-'' @ nat_to_string now @ ''.txt'')
           \<lparr>blob_content = t, blob_type = ''text/plain''\<rparr>]"
    by (simp add: downloadResult_def)
next
  assume "\<not> truthy (Some (ocrResult s))"
  then show "downloadResult w now s = []"
    by (simp add: downloadResult_def)
qed

text \<open>
  A result with a confidence, a processing time and a model name: the download holds the
  text \<open>hello\<close> and nothing else. A page that holds no result downloads nothing.
\<close>

theorem downloadResult_text_only_witness:
  "downloadResult (production (rejects_with (ThrownValue None))) 1700000000000
     \<lparr>file = Some (png 2048), imagePreview = ''data:image/png;base64,iVBORw0KGgo='',
      ocrResult = JObj [(''text'', JStr ''hello''), (''confidence'', JNum (87 / 100)),
                        (''processing_time'', JNum 2), (''model_used'', JStr ''dots.ocr'')],
      isProcessing = False, error = []\<rparr>
   = [Download (''ocr-result-'' @ nat_to_string 1700000000000 @ ''.txt'')
        \<lparr>blob_content = ''hello'', blob_type = ''text/plain''\<rparr>] \<and>
   downloadResult (production (rejects_with (ThrownValue None))) 1700000000000 initial_state = []"
  using downloadResult_text_only
    [of "\<lparr>file = Some (png 2048), imagePreview = ''data:image/png;base64,iVBORw0KGgo='',
      ocrResult = JObj [(''text'', JStr ''hello''), (''confidence'', JNum (87 / 100)),
                        (''processing_time'', JNum 2), (''model_used'', JStr ''dots.ocr'')],
      isProcessing = False, error = []\<rparr>"
        "production (rejects_with (ThrownValue None))" 1700000000000]
    downloadResult_text_only
    [of initial_state "production (rejects_with (ThrownValue None))" 1700000000000]
  by (simp add: initial_state_def)

text \<open>
  Claim C7 as it is written fails for results that the page stores as the backend sent
  them. After a 200 response with the body \<open>{ "confidence": 0.5 }\<close>, which has no \<open>text\<close>,
  the downloaded file holds the word \<open>undefined\<close>. After a 200 response with the body
  \<open>false\<close> the stored result is not \<open>null\<close>, and nothing is downloaded.
\<close>

theorem downloadResult_counterexample:
  "downloadResult (production (resolves_with \<lparr>status = 200, json_result = Inr (JObj [(''confidence'', JNum (1 / 2))])\<rparr>))
     1700000000000
     (fst (processOCR (production (resolves_with \<lparr>status = 200, json_result = Inr (JObj [(''confidence'', JNum (1 / 2))])\<rparr>))
        \<lparr>file = Some (png 2048), imagePreview = ''data:image/png;base64,iVBORw0KGgo='',
         ocrResult = JNull, isProcessing = False, error = []\<rparr>))
   = [Download (''ocr-result-'' @ nat_to_string 1700000000000 @ ''.txt'')
        \<lparr>blob_content = ''undefined'', blob_type = ''text/plain''\<rparr>] \<and>
   ocrResult (fst (processOCR (production (resolves_with \<lparr>status = 200, json_result = Inr (JBool False)\<rparr>))
        \<lparr>file = Some (png 2048), imagePreview = ''data:image/png;base64,iVBORw0KGgo='',
         ocrResult = JNull, isProcessing = False, error = []\<rparr>)) = JBool False \<and>
   downloadResult (production (resolves_with \<lparr>status = 200, json_result = Inr (JBool False)\<rparr>))
     1700000000000
     (fst (processOCR (production (resolves_with \<lparr>status = 200, json_result = Inr (JBool False)\<rparr>))
        \<lparr>file = Some (png 2048), imagePreview = ''data:image/png;base64,iVBORw0KGgo='',
         ocrResult = JNull, isProcessing = False, error = []\<rparr>))
   = []"
  by (simp add: downloadResult_def processOCR_def Let_def production_def resolves_with_def ok_def)

text \<open>
  Claim C8, as amended. For a selection that is empty or whose first file has a MIME type
  not starting with \<open>image/\<close>, \<open>onDrop\<close> sets the error message, which is not empty, changes
  nothing else in the state and has no effect (no file is read, no request is sent). So when
  no file and no preview were set before, none is set after, and neither the preview nor the
  process button is rendered.
\<close>

theorem onDrop_rejects_non_image:
  assumes "case acceptedFiles of [] \<Rightarrow> True | f # rest \<Rightarrow> \<not> prefix ''image/'' (file_type f)"
  shows "onDrop acceptedFiles s = (s\<lparr>error := msg_not_image\<rparr>, []) \<and> msg_not_image \<noteq> [] \<and>
         (file s = None \<and> imagePreview s = [] \<longrightarrow>
            file (fst (onDrop acceptedFiles s)) = None \<and>
            imagePreview (fst (onDrop acceptedFiles s)) = [] \<and>
            \<not> preview_block (render (fst (onDrop acceptedFiles s))) \<and>
            \<not> process_button (render (fst (onDrop acceptedFiles s))))"
  using assms
  by (cases acceptedFiles) (simp_all add: onDrop_def msg_not_image_nonempty render_def)

text \<open>A PDF, and an empty selection, dropped on the page in its initial state.\<close>

theorem onDrop_rejects_non_image_witness:
  "onDrop [pdf 4096] initial_state = (initial_state\<lparr>error := msg_not_image\<rparr>, []) \<and>
   onDrop [] initial_state = (initial_state\<lparr>error := msg_not_image\<rparr>, []) \<and>
   file initial_state = None \<and> imagePreview initial_state = [] \<and>
   \<not> process_button (render (fst (onDrop [pdf 4096] initial_state)))"
  using onDrop_rejects_non_image [of "[pdf 4096]" initial_state]
    onDrop_rejects_non_image [of "[]" initial_state]
  by (simp add: pdf_def initial_state_def render_def)

text \<open>
  Claim C8 as it is written fails once an image has been selected: a PNG is dropped and its
  preview loaded, then a PDF is dropped. The PNG is still the selected file, its preview is
  still rendered and the process button with it.
\<close>

theorem onDrop_after_image_counterexample:
  "file (fst (onDrop [pdf 4096]
       (reader_onload ''data:image/png;base64,iVBORw0KGgo=''
          (fst (onDrop [png 2048] initial_state))))) = Some (png 2048) \<and>
   imagePreview (fst (onDrop [pdf 4096]
       (reader_onload ''data:image/png;base64,iVBORw0KGgo=''
          (fst (onDrop [png 2048] initial_state))))) \<noteq> [] \<and>
   preview_block (render (fst (onDrop [pdf 4096]
       (reader_onload ''data:image/png;base64,iVBORw0KGgo=''
          (fst (onDrop [png 2048] initial_state)))))) \<and>
   process_button (render (fst (onDrop [pdf 4096]
       (reader_onload ''data:image/png;base64,iVBORw0KGgo=''
          (fst (onDrop [png 2048] initial_state))))))"
  by (simp add: onDrop_def reader_onload_def initial_state_def png_def pdf_def render_def)

text \<open>
  Claim C10. When a file is selected and the request of \<open>processOCR\<close> fails, because
  \<open>fetch\<close> rejects or because the response has a status outside 200..299, the state after
  the handler is the state before it with the error message set and the busy flag cleared:
  the stored OCR result, the selected file and the preview are unchanged.
\<close>

theorem processOCR_failure_keeps_result:
  assumes "file s = Some f"
    and "fetch w (public_endpoint w) [(''file'', FileEntry f)] = outcome"
    and "case outcome of Inl e \<Rightarrow> True | Inr r \<Rightarrow> \<not> ok r"
  shows "fst (processOCR w s) =
           s\<lparr>error := (case outcome of
                         Inl (ErrorInstance name msg) \<Rightarrow> msg
                       | Inl (ThrownValue v) \<Rightarrow> msg_ocr_error
                       | Inr r \<Rightarrow> msg_ocr_failed),
             isProcessing := False\<rparr>"
  using assms
  by (cases outcome) (simp_all add: processOCR_def processOCR_failed_def Let_def split: thrown.splits)

text \<open>
  A page that holds the result of an earlier run: after a 503 from the backend, and after a
  network failure, the old result is still there beside the new error.
\<close>

theorem processOCR_failure_keeps_result_witness:
  "fst (processOCR (production (resolves_with \<lparr>status = 503, json_result = Inr (JObj [])\<rparr>))
     \<lparr>file = Some (png 2048), imagePreview = ''data:image/png;base64,iVBORw0KGgo='',
      ocrResult = JObj [(''text'', JStr ''hello'')], isProcessing = False, error = []\<rparr>)
   = \<lparr>file = Some (png 2048), imagePreview = ''data:image/png;base64,iVBORw0KGgo='',
      ocrResult = JObj [(''text'', JStr ''hello'')], isProcessing = False, error = msg_ocr_failed\<rparr>
   \<and>
   fst (processOCR (production (rejects_with (ErrorInstance ''TypeError'' ''Failed to fetch'')))
     \<lparr>file = Some (png 2048), imagePreview = ''data:image/png;base64,iVBORw0KGgo='',
      ocrResult = JObj [(''text'', JStr ''hello'')], isProcessing = False, error = []\<rparr>)
   = \<lparr>file = Some (png 2048), imagePreview = ''data:image/png;base64,iVBORw0KGgo='',
      ocrResult = JObj [(''text'', JStr ''hello'')], isProcessing = False, error = ''Failed to fetch''\<rparr>"
  using processOCR_failure_keeps_result
    [of "\<lparr>file = Some (png 2048), imagePreview = ''data:image/png;base64,iVBORw0KGgo='',
      ocrResult = JObj [(''text'', JStr ''hello'')], isProcessing = False, error = []\<rparr>"
      "png 2048" "production (resolves_with \<lparr>status = 503, json_result = Inr (JObj [])\<rparr>)"
      "Inr \<lparr>status = 503, json_result = Inr (JObj [])\<rparr>"]
    processOCR_failure_keeps_result
    [of "\<lparr>file = Some (png 2048), imagePreview = ''data:image/png;base64,iVBORw0KGgo='',
      ocrResult = JObj [(''text'', JStr ''hello'')], isProcessing = False, error = []\<rparr>"
      "png 2048" "production (rejects_with (ErrorInstance ''TypeError'' ''Failed to fetch''))"
      "Inl (ErrorInstance ''TypeError'' ''Failed to fetch'')"]
  by (simp add: production_def resolves_with_def rejects_with_def ok_def)


end
